theory Spec2Isabelle
  imports Complex_Main
begin

section \<open>Data model of archivo.c++\<close>

text \<open>
  The program is a single C++ file: a tokenizer (\<open>Lexico\<close>), an expression builder
  (\<open>construirAST\<close>) with its type stack, six statement recognizers and a driver
  (\<open>analisisSintactico\<close>). The global variables \<open>tablaSimbolos\<close>,
  \<open>idGlobalCounter\<close> and \<open>pilaSemantica\<close> are gathered in the record \<open>Global\<close> and
  passed explicitly; a cursor \<open>size_t& i\<close> is a \<open>nat\<close> taken and returned.

  What the model leaves out or idealises:
  \<^item> console output (\<open>cout\<close>) is not modelled; only the exceptions that the printing
    code can raise are;
  \<^item> a \<open>double\<close> is an exact rational: rounding, overflow, signed zeros, infinities and
    NaN are not modelled. A division by zero, and \<open>stod\<close> on numeric text in exponent,
    hexadecimal, \<open>inf\<close> or \<open>nan\<close> notation, end the modelled run with the outcome
    \<open>FueraDeModelo\<close>, about which nothing is claimed;
  \<^item> reading \<open>tokens[i]\<close> beyond the vector, \<open>top\<close>/\<open>pop\<close> on an empty stack, a
    \<open>static_cast<int>\<close> out of range and signed overflow of the counter are undefined
    behaviour in C++: the outcome \<open>Indefinido\<close>.
\<close>

text \<open>\<open>enum class DataType\<close>; the prefix \<open>T_\<close> keeps \<open>INT\<close> apart from Isabelle's own token.\<close>

datatype DataType = T_INT | T_FLOAT | T_STRING | T_UNKNOWN

record Token =
  tipo :: string
  valor :: string

text \<open>The fields \<open>tipo\<close> and \<open>valor\<close> of \<open>Simbolo\<close> carry the suffix \<open>S\<close>, since a
  theory cannot use one field name in two records.\<close>

record Simbolo =
  nombre :: string
  tipoS :: string
  valorS :: string
  id_contador :: string

record Global =
  tablaSimbolos :: "Simbolo list"
  idGlobalCounter :: int
  pilaSemantica :: "DataType list"

type_synonym double = rat

datatype Node =
    NumberNode double DataType
  | VariableNode string
  | OperatorNode char Node Node

text \<open>Every \<open>runtime_error\<close> the program throws, by its message.\<close>

datatype error =
    VariableNoEncontrada string   \<comment> \<open>"Variable no encontrada: " + name\<close>
  | TiposDiferentes               \<comment> \<open>"Error de tipo: no se pueden mezclar tipos diferentes en operaciones"\<close>
  | SoloConcatenacion             \<comment> \<open>"Error de tipo: solo se permite la concatenacion (+) con strings"\<close>
  | OperacionConStrings           \<comment> \<open>"Las operaciones con strings deben manejarse en otra funcion"\<close>
  | OperadorDesconocido           \<comment> \<open>"Operador desconocido"\<close>
  | SeEsperabaParentesis          \<comment> \<open>"Se esperaba ')'"\<close>
  | FactorInesperado string       \<comment> \<open>"Factor inesperado: " + tokens[i].valor\<close>
  | OperandoDerechoInvalido       \<comment> \<open>"Operando derecho invalido"\<close>
  | TiposIncompatibles            \<comment> \<open>"Tipos incompatibles"\<close>

text \<open>
  The outcome of a call. \<open>Lanza e s\<close> is a \<open>runtime_error\<close> in flight, with the part \<open>s\<close> of
  the global state that the callee had changed when it threw. \<open>Aborta\<close> is an exception
  that is no \<open>runtime_error\<close> (\<open>std::invalid_argument\<close> of \<open>stod\<close>): no handler of the
  program catches it. \<open>SinCombustible\<close> is the model's own: the fuel of a recursion ran out.
\<close>

datatype ('a, 's) resultado =
    Normal 'a
  | Lanza error 's
  | Indefinido
  | Aborta
  | FueraDeModelo
  | SinCombustible

fun intentar :: "('a, 's) resultado \<Rightarrow> ('a \<Rightarrow> ('b, 't) resultado) \<Rightarrow>
    (error \<Rightarrow> 's \<Rightarrow> ('b, 't) resultado) \<Rightarrow> ('b, 't) resultado" where
  "intentar (Normal x) f h = f x"
| "intentar (Lanza e s) f h = h e s"
| "intentar Indefinido f h = Indefinido"
| "intentar Aborta f h = Aborta"
| "intentar FueraDeModelo f h = FueraDeModelo"
| "intentar SinCombustible f h = SinCombustible"

definition luego :: "('a, 's) resultado \<Rightarrow> ('a \<Rightarrow> ('b, 's) resultado) \<Rightarrow> ('b, 's) resultado" where
  "luego m f = intentar m f Lanza"

section \<open>Library functions: \<open>stod\<close>, \<open>to_string\<close>, \<open>static_cast<int>\<close>\<close>

definition esDigito :: "char \<Rightarrow> bool" where
  "esDigito c = (c \<in> set ''0123456789'')"

definition esEspacio :: "char \<Rightarrow> bool" where
  "esEspacio c = (of_char c \<in> set [9, 10, 11, 12, 13, 32 :: nat])"

definition minuscula :: "char \<Rightarrow> char" where
  "minuscula c = (if 65 \<le> (of_char c :: nat) \<and> (of_char c :: nat) \<le> 90
                  then char_of (of_char c + 32 :: nat) else c)"

definition valorDigitos :: "string \<Rightarrow> int" where
  "valorDigitos ds = foldl (\<lambda>a c. 10 * a + (of_char c - 48)) 0 ds"

text \<open>
  \<open>std::stod\<close>: white space, an optional sign, then the longest decimal number
  \<open>digits [. digits]\<close> or \<open>. digits\<close>; what follows is ignored. With no number there it
  throws \<open>std::invalid_argument\<close>. Text that \<open>strtod\<close> reads in another notation is
  outside the model.
\<close>

definition stod :: "string \<Rightarrow> (double, unit) resultado" where
  "stod s =
    (let s1 = dropWhile esEspacio s;
         neg = (s1 \<noteq> [] \<and> hd s1 = CHR ''-'');
         s2 = (if s1 \<noteq> [] \<and> (hd s1 = CHR ''-'' \<or> hd s1 = CHR ''+'') then tl s1 else s1);
         ent = takeWhile esDigito s2;
         r1 = dropWhile esDigito s2;
         conPunto = (r1 \<noteq> [] \<and> hd r1 = CHR ''.'');
         frac = (if conPunto then takeWhile esDigito (tl r1) else []);
         r2 = (if conPunto then dropWhile esDigito (tl r1) else r1)
     in if ent = [] \<and> frac = [] then
          (if map minuscula (take 3 s2) = ''inf'' \<or> map minuscula (take 3 s2) = ''nan''
           then FueraDeModelo else Aborta)
        else if r2 \<noteq> [] \<and> minuscula (hd r2) \<in> set ''exp'' then FueraDeModelo
        else Normal ((if neg then - 1 else 1) *
               (of_int (valorDigitos ent) + of_int (valorDigitos frac) / 10 ^ length frac)))"

text \<open>The decimal digits of a number that is not negative.\<close>

function digitos :: "int \<Rightarrow> string" where
  "digitos n = (if n < 10 then [''0123456789'' ! nat n]
                else digitos (n div 10) @ [''0123456789'' ! nat (n mod 10)])"
  by pat_completeness auto
termination
  by (relation "measure nat") auto

declare digitos.simps [simp del]

text \<open>\<open>std::to_string(int)\<close>.\<close>

definition to_string_int :: "int \<Rightarrow> string" where
  "to_string_int k = (if k < 0 then CHR ''-'' # digitos (- k) else digitos k)"

text \<open>\<open>static_cast<int>(double)\<close>: the fractional part is discarded (truncation toward
  zero); undefined when the truncated value is no \<open>int\<close> (32 bits).\<close>

definition truncar :: "double \<Rightarrow> int" where
  "truncar r = (if 0 \<le> r then \<lfloor>r\<rfloor> else \<lceil>r\<rceil>)"

definition static_cast_int :: "double \<Rightarrow> int option" where
  "static_cast_int r =
     (if - 2147483648 \<le> truncar r \<and> truncar r \<le> 2147483647 then Some (truncar r) else None)"

text \<open>\<open>std::to_string(double)\<close> prints as \<open>printf("%f")\<close>: six decimals, the value rounded
  to nearest, ties to even. \<open>redondeoPar a q\<close> is the quotient \<open>a / q\<close> so rounded, for
  \<open>0 \<le> a\<close> and \<open>0 < q\<close>; \<open>quotient_of r\<close> is the fraction \<open>r\<close> in lowest terms, its
  denominator positive.\<close>

definition redondeoPar :: "int \<Rightarrow> int \<Rightarrow> int" where
  "redondeoPar a q =
     (if 2 * (a mod q) < q then a div q
      else if q < 2 * (a mod q) then a div q + 1
      else if even (a div q) then a div q else a div q + 1)"

definition seisDecimales :: "int \<Rightarrow> string" where
  "seisDecimales m = (let ds = digitos m in replicate (6 - length ds) CHR ''0'' @ ds)"

definition to_string_double :: "double \<Rightarrow> string" where
  "to_string_double r =
     (case quotient_of r of
        (p, q) \<Rightarrow>
          (if p < 0 then ''-'' else []) @
          digitos (redondeoPar (\<bar>p\<bar> * 1000000) q div 1000000) @ ''.'' @
          seisDecimales (redondeoPar (\<bar>p\<bar> * 1000000) q mod 1000000))"

section \<open>Symbol table and type rules\<close>

definition stringToDataType :: "string \<Rightarrow> DataType" where
  "stringToDataType t =
     (if t = ''int'' then T_INT else if t = ''float'' then T_FLOAT
      else if t = ''string'' then T_STRING else T_UNKNOWN)"

text \<open>\<open>buscarVariable\<close> copies the first symbol of that name, if there is one.\<close>

definition buscarVariable :: "Simbolo list \<Rightarrow> string \<Rightarrow> Simbolo option" where
  "buscarVariable tabla n = find (\<lambda>s. nombre s = n) tabla"

text \<open>\<open>regex_match\<close> against \<open>^-?\d+$\<close> and \<open>^-?\d+(\.\d+)?$\<close>.\<close>

definition esEntero :: "string \<Rightarrow> bool" where
  "esEntero v =
     (let ds = (if v \<noteq> [] \<and> hd v = CHR ''-'' then tl v else v)
      in ds \<noteq> [] \<and> list_all esDigito ds)"

definition esFlotante :: "string \<Rightarrow> bool" where
  "esFlotante v =
     (let ds = (if v \<noteq> [] \<and> hd v = CHR ''-'' then tl v else v);
          ent = takeWhile esDigito ds;
          r = dropWhile esDigito ds
      in ent \<noteq> [] \<and> (r = [] \<or> (hd r = CHR ''.'' \<and> tl r \<noteq> [] \<and> list_all esDigito (tl r))))"

definition esValorCompatible :: "string \<Rightarrow> string \<Rightarrow> bool" where
  "esValorCompatible v t =
     (if t = ''int'' then esEntero v
      else if t = ''float'' then esFlotante v
      else if t = ''string'' then True
      else False)"

section \<open>AST nodes: \<open>getType\<close> and \<open>evaluate\<close>\<close>

text \<open>\<open>NumberNode(const string&)\<close>: the type from the presence of a point, the value
  by \<open>stod\<close>.\<close>

definition nuevoNumberNode :: "string \<Rightarrow> (Node, unit) resultado" where
  "nuevoNumberNode val =
     luego (stod val) (\<lambda>v. Normal (NumberNode v (if CHR ''.'' \<in> set val then T_FLOAT else T_INT)))"

text \<open>\<open>VariableNode::getType\<close>: the loop returns at the first symbol of that name whose
  type is one of the three keywords, and throws when it runs off the table.\<close>

fun getTypeVariable :: "Simbolo list \<Rightarrow> string \<Rightarrow> (DataType, unit) resultado" where
  "getTypeVariable [] name = Lanza (VariableNoEncontrada name) ()"
| "getTypeVariable (s # ss) name =
     (if nombre s = name then
        (if tipoS s = ''int'' then Normal T_INT
         else if tipoS s = ''float'' then Normal T_FLOAT
         else if tipoS s = ''string'' then Normal T_STRING
         else getTypeVariable ss name)
      else getTypeVariable ss name)"

fun getType :: "Simbolo list \<Rightarrow> Node \<Rightarrow> (DataType, unit) resultado" where
  "getType tabla (NumberNode v t) = Normal t"
| "getType tabla (VariableNode name) = getTypeVariable tabla name"
| "getType tabla (OperatorNode op l r) =
     luego (getType tabla l) (\<lambda>leftType.
     luego (getType tabla r) (\<lambda>rightType.
       if (leftType = T_INT \<and> rightType = T_FLOAT) \<or> (leftType = T_FLOAT \<and> rightType = T_INT)
       then Normal T_FLOAT
       else if leftType \<noteq> rightType then Lanza TiposDiferentes ()
       else if leftType = T_STRING \<and> op \<noteq> CHR ''+'' then Lanza SoloConcatenacion ()
       else Normal leftType))"

fun evaluate :: "Simbolo list \<Rightarrow> Node \<Rightarrow> (double, unit) resultado" where
  "evaluate tabla (NumberNode v t) = Normal v"
| "evaluate tabla (VariableNode name) =
     (case find (\<lambda>s. nombre s = name) tabla of
        None \<Rightarrow> Lanza (VariableNoEncontrada name) ()
      | Some s \<Rightarrow> stod (valorS s))"
| "evaluate tabla (OperatorNode op l r) =
     luego (getType tabla (OperatorNode op l r)) (\<lambda>operationType.
       if operationType = T_STRING then Lanza OperacionConStrings ()
       else
         luego (evaluate tabla l) (\<lambda>lval.
         luego (evaluate tabla r) (\<lambda>rval.
           if op = CHR ''+'' then Normal (lval + rval)
           else if op = CHR ''-'' then Normal (lval - rval)
           else if op = CHR ''*'' then Normal (lval * rval)
           else if op = CHR ''/'' then (if rval = 0 then FueraDeModelo else Normal (lval / rval))
           else Lanza OperadorDesconocido ())))"

text \<open>\<open>mostrarExpresionSimple\<close> prints the tree; it calls \<open>getType\<close> on every node, the
  children of an operator first. Only what it can throw is modelled.\<close>

fun mostrarExpresionSimple :: "Simbolo list \<Rightarrow> Node \<Rightarrow> (unit, unit) resultado" where
  "mostrarExpresionSimple tabla (NumberNode v t) = Normal ()"
| "mostrarExpresionSimple tabla (VariableNode name) =
     luego (getTypeVariable tabla name) (\<lambda>t. Normal ())"
| "mostrarExpresionSimple tabla (OperatorNode op l r) =
     luego (mostrarExpresionSimple tabla l) (\<lambda>u.
     luego (mostrarExpresionSimple tabla r) (\<lambda>u.
     luego (getType tabla (OperatorNode op l r)) (\<lambda>t. Normal ())))"

section \<open>Expression builder\<close>

text \<open>
  \<open>construirAST\<close> reads the table and changes the cursor and the type stack (its head is
  the top). The code that parses one operand stands twice in the source, for the first
  factor and inside the loop, and differs only in the error of its last branch: it is
  \<open>operando\<close> here, \<open>primero\<close> telling the two copies apart. \<open>operadores\<close> is the
  \<open>while\<close> loop. The recursion of the source is on nested parentheses and on the
  cursor; the model recurses on fuel. \<open>hoja\<close> is the part of \<open>operando\<close> for a token
  that opens no parenthesis.
\<close>

definition hoja :: "bool \<Rightarrow> Simbolo list \<Rightarrow> Token list \<Rightarrow> nat \<Rightarrow> DataType list \<Rightarrow>
      (Node \<times> nat \<times> DataType list, DataType list) resultado" where
  "hoja primero tabla tokens i pila =
     (if tipo (tokens ! i) = ''NUMERO'' then
        intentar (nuevoNumberNode (valor (tokens ! i)))
          (\<lambda>nodo. intentar (getType tabla nodo)
             (\<lambda>t. Normal (nodo, i + 1, t # pila)) (\<lambda>e u. Lanza e pila))
          (\<lambda>e u. Lanza e pila)
      else if tipo (tokens ! i) = ''IDENTIFICADOR'' then
        intentar (getType tabla (VariableNode (valor (tokens ! i))))
          (\<lambda>t. Normal (VariableNode (valor (tokens ! i)), i + 1, t # pila))
          (\<lambda>e u. Lanza e pila)
      else if primero then Lanza (FactorInesperado (valor (tokens ! i))) pila
      else Lanza OperandoDerechoInvalido pila)"

text \<open>The type check of the loop body: the two types on top of the stack are popped and
  their combination is pushed.\<close>

definition verificarTipos :: "DataType list \<Rightarrow> (DataType list, DataType list) resultado" where
  "verificarTipos pila =
     (case pila of
        tipoDerecho # tipoIzquierdo # resto \<Rightarrow>
          if (tipoIzquierdo = T_INT \<and> tipoDerecho = T_FLOAT) \<or>
             (tipoIzquierdo = T_FLOAT \<and> tipoDerecho = T_INT)
          then Normal (T_FLOAT # resto)
          else if tipoIzquierdo = tipoDerecho then Normal (tipoIzquierdo # resto)
          else Lanza TiposIncompatibles resto
      | _ \<Rightarrow> Indefinido)"

text \<open>\<open>tokens[i].valor[0]\<close>: on an empty string, \<open>operator[]\<close> gives the terminating
  null character.\<close>

definition primerCaracter :: "string \<Rightarrow> char" where
  "primerCaracter v = (case v of [] \<Rightarrow> CHR 0x00 | c # cs \<Rightarrow> c)"

function construirAST :: "nat \<Rightarrow> Simbolo list \<Rightarrow> Token list \<Rightarrow> nat \<Rightarrow> DataType list \<Rightarrow>
      (Node \<times> nat \<times> DataType list, DataType list) resultado"
  and operando :: "nat \<Rightarrow> bool \<Rightarrow> Simbolo list \<Rightarrow> Token list \<Rightarrow> nat \<Rightarrow> DataType list \<Rightarrow>
      (Node \<times> nat \<times> DataType list, DataType list) resultado"
  and operadores :: "nat \<Rightarrow> Simbolo list \<Rightarrow> Token list \<Rightarrow> nat \<Rightarrow> DataType list \<Rightarrow> Node \<Rightarrow>
      (Node \<times> nat \<times> DataType list, DataType list) resultado"
where
  "construirAST 0 tabla tokens i pila = SinCombustible"
| "construirAST (Suc n) tabla tokens i pila =
     luego (operando n True tabla tokens i pila) (\<lambda>(left, i', pila').
       operadores n tabla tokens i' pila' left)"
| "operando n primero tabla tokens i pila =
     (if length tokens \<le> i then Indefinido
      else if tipo (tokens ! i) = ''PARENTESIS_IZQUIERDO'' then
        luego (construirAST n tabla tokens (i + 1) pila) (\<lambda>(nodo, i', pila').
          if length tokens \<le> i' \<or> tipo (tokens ! i') \<noteq> ''PARENTESIS_DERECHO''
          then Lanza SeEsperabaParentesis pila'
          else Normal (nodo, i' + 1, pila'))
      else hoja primero tabla tokens i pila)"
| "operadores 0 tabla tokens i pila left = SinCombustible"
| "operadores (Suc n) tabla tokens i pila left =
     (if i < length tokens \<and> tipo (tokens ! i) = ''ARITMETICO'' then
        luego (operando n False tabla tokens (i + 1) pila) (\<lambda>(right, i', pila').
          luego (verificarTipos pila') (\<lambda>pila''.
            operadores n tabla tokens i' pila''
              (OperatorNode (primerCaracter (valor (tokens ! i))) left right)))
      else Normal (left, i, pila))"
  by pat_completeness auto
termination
  by (relation "measure (\<lambda>x. case x of
        Inl (n, tabla, tokens, i, pila) \<Rightarrow> 2 * n
      | Inr (Inl (n, primero, tabla, tokens, i, pila)) \<Rightarrow> 2 * n + 1
      | Inr (Inr (n, tabla, tokens, i, pila, left)) \<Rightarrow> 2 * n)") auto

section \<open>Tokenizer\<close>

text \<open>
  \<open>Lexico\<close> asks, for each pattern in the order of the vector \<open>patrones\<close>, whether
  \<open>regex_search\<close> on the rest of the input finds a match at position 0. A pattern is
  modelled by the function that gives the length of that match, if there is one (the
  match an ECMAScript regex finds first: alternatives in order, repetitions greedy).
  The search starts at \<open>input.cbegin() + pos\<close> without \<open>match_prev_avail\<close>, so \<open>\b\<close>
  holds at the start before a word character, whatever precedes \<open>pos\<close>.
\<close>

definition esLetra :: "char \<Rightarrow> bool" where
  "esLetra c = ((65 \<le> (of_char c :: nat) \<and> (of_char c :: nat) \<le> 90) \<or>
                (97 \<le> (of_char c :: nat) \<and> (of_char c :: nat) \<le> 122))"

text \<open>A word character, for \<open>\b\<close> and for the tail of an identifier.\<close>

definition esPalabra :: "char \<Rightarrow> bool" where
  "esPalabra c = (esLetra c \<or> esDigito c \<or> c = CHR ''_'')"

text \<open>\<open>\b(k1|k2|...)\b\<close>: the first keyword that starts the text and ends at a word
  boundary.\<close>

fun palabraClave :: "string list \<Rightarrow> string \<Rightarrow> nat option" where
  "palabraClave [] s = None"
| "palabraClave (k # ks) s =
     (if take (length k) s = k \<and>
         (case drop (length k) s of [] \<Rightarrow> True | c # cs \<Rightarrow> \<not> esPalabra c)
      then Some (length k) else palabraClave ks s)"

text \<open>\<open>(a1|a2|...)\<close>: the first alternative that starts the text.\<close>

fun alternativa :: "string list \<Rightarrow> string \<Rightarrow> nat option" where
  "alternativa [] s = None"
| "alternativa (a # as) s = (if take (length a) s = a then Some (length a) else alternativa as s)"

definition variables :: "string \<Rightarrow> nat option" where
  "variables = palabraClave [''int'', ''float'', ''string'']"

definition ciclos :: "string \<Rightarrow> nat option" where
  "ciclos = palabraClave [''while'']"

definition condicion :: "string \<Rightarrow> nat option" where
  "condicion = palabraClave [''if'', ''else'']"

definition escritura :: "string \<Rightarrow> nat option" where
  "escritura = palabraClave [''write'']"

definition lectura :: "string \<Rightarrow> nat option" where
  "lectura = palabraClave [''read'']"

definition aritmeticos :: "string \<Rightarrow> nat option" where
  "aritmeticos = alternativa [''+'', ''-'', ''/'', ''*'']"

definition comparacion :: "string \<Rightarrow> nat option" where
  "comparacion = alternativa [''>='', ''<='', ''=='', ''!='', ''>'', ''<'']"

definition operador_regex :: "string \<Rightarrow> nat option" where
  "operador_regex = alternativa [''='', '';'']"

text \<open>\<open>"[^"]*"\<close>: from a quote to the next one.\<close>

definition cadena :: "string \<Rightarrow> nat option" where
  "cadena s =
     (case s of
        [] \<Rightarrow> None
      | c # cs \<Rightarrow>
          if c = CHR 0x22 \<and> CHR 0x22 \<in> set cs
          then Some (length (takeWhile (\<lambda>x. x \<noteq> CHR 0x22) cs) + 2) else None)"

definition par_der :: "string \<Rightarrow> nat option" where
  "par_der = alternativa ['')'']"

definition par_izq :: "string \<Rightarrow> nat option" where
  "par_izq = alternativa [''('']"

definition llave_der :: "string \<Rightarrow> nat option" where
  "llave_der = alternativa [''}'']"

definition llave_izq :: "string \<Rightarrow> nat option" where
  "llave_izq = alternativa [''{'']"

definition cor_der :: "string \<Rightarrow> nat option" where
  "cor_der = alternativa ['']'']"

definition cor_izq :: "string \<Rightarrow> nat option" where
  "cor_izq = alternativa [''['']"

text \<open>\<open>\d+(\.\d+)?\<close>: no sign.\<close>

definition numeros :: "string \<Rightarrow> nat option" where
  "numeros s =
     (let ent = takeWhile esDigito s; r = dropWhile esDigito s
      in if ent = [] then None
         else if r \<noteq> [] \<and> hd r = CHR ''.'' \<and> takeWhile esDigito (tl r) \<noteq> []
         then Some (length ent + 1 + length (takeWhile esDigito (tl r)))
         else Some (length ent))"

text \<open>\<open>[a-zA-Z_][a-zA-Z0-9_]*\<close>.\<close>

definition identificadores :: "string \<Rightarrow> nat option" where
  "identificadores s =
     (case s of
        [] \<Rightarrow> None
      | c # cs \<Rightarrow>
          if esLetra c \<or> c = CHR ''_'' then Some (1 + length (takeWhile esPalabra cs))
          else None)"

definition patrones :: "((string \<Rightarrow> nat option) \<times> string) list" where
  "patrones =
     [(variables, ''VARIABLE''),
      (ciclos, ''CICLO''),
      (escritura, ''ESCRITURA''),
      (lectura, ''LECTURA''),
      (comparacion, ''COMPARACION''),
      (aritmeticos, ''ARITMETICO''),
      (operador_regex, ''OPERADOR''),
      (cadena, ''CADENA''),
      (par_der, ''PARENTESIS_DERECHO''),
      (par_izq, ''PARENTESIS_IZQUIERDO''),
      (cor_der, ''CORCHETE_DERECHO''),
      (cor_izq, ''CORCHETE_IZQUIERDO''),
      (llave_der, ''LLAVE_DERECHA''),
      (llave_izq, ''LLAVE_IZQUIERDA''),
      (numeros, ''NUMERO''),
      (condicion, ''CONDICION''),
      (identificadores, ''IDENTIFICADOR'')]"

text \<open>The \<open>for\<close> loop over \<open>patrones\<close>: the first pattern that matches at position 0,
  with the length of its match.\<close>

fun primerPatron :: "((string \<Rightarrow> nat option) \<times> string) list \<Rightarrow> string \<Rightarrow> (string \<times> nat) option" where
  "primerPatron [] s = None"
| "primerPatron ((patron, t) # ps) s =
     (case patron s of Some n \<Rightarrow> Some (t, n) | None \<Rightarrow> primerPatron ps s)"

lemma palabraClave_positivo:
  "palabraClave ks s = Some n \<Longrightarrow> [] \<notin> set ks \<Longrightarrow> 0 < n"
  by (induction ks) (auto split: if_splits)

lemma alternativa_positivo:
  "alternativa ks s = Some n \<Longrightarrow> [] \<notin> set ks \<Longrightarrow> 0 < n"
  by (induction ks) (auto split: if_splits)

lemma cadena_positivo: "cadena s = Some n \<Longrightarrow> 0 < n"
  by (auto simp: cadena_def split: list.splits if_splits)

lemma numeros_positivo: "numeros s = Some n \<Longrightarrow> 0 < n"
  by (auto simp: numeros_def Let_def split: if_splits)

lemma identificadores_positivo: "identificadores s = Some n \<Longrightarrow> 0 < n"
  by (auto simp: identificadores_def split: list.splits if_splits)

lemma primerPatron_todos_positivos:
  "primerPatron ps s = Some (t, n) \<Longrightarrow> list_all (\<lambda>(p, t). \<forall>n. p s = Some n \<longrightarrow> 0 < n) ps
    \<Longrightarrow> 0 < n"
  by (induction ps) (auto split: option.splits)

lemma patrones_positivos:
  "list_all (\<lambda>(p, t). \<forall>n. p s = Some n \<longrightarrow> 0 < n) patrones"
  unfolding patrones_def list.pred_inject prod.case
  by (intro conjI allI impI;
      (erule cadena_positivo numeros_positivo identificadores_positivo)?;
      (unfold variables_def ciclos_def condicion_def escritura_def lectura_def
         aritmeticos_def comparacion_def operador_regex_def par_der_def par_izq_def
         llave_der_def llave_izq_def cor_der_def cor_izq_def)?;
      (erule palabraClave_positivo alternativa_positivo)?; simp?)

lemma primerPatron_positivo:
  assumes "primerPatron patrones s = Some (t, n)"
  shows "0 < n"
  using primerPatron_todos_positivos [OF assms patrones_positivos] .

text \<open>The \<open>while\<close> loop of \<open>Lexico\<close> from position \<open>pos\<close> on: the tokens it appends.\<close>

function lexicoDesde :: "string \<Rightarrow> nat \<Rightarrow> Token list" where
  "lexicoDesde input pos =
     (if pos < length input then
        (case primerPatron patrones (drop pos input) of
           Some (t, n) \<Rightarrow>
             \<lparr>tipo = t, valor = take n (drop pos input)\<rparr> # lexicoDesde input (pos + n)
         | None \<Rightarrow> lexicoDesde input (pos + 1))
      else [])"
  by pat_completeness auto
termination
  by (relation "measure (\<lambda>(input, pos). length input - pos)")
     (auto dest: primerPatron_positivo)

declare lexicoDesde.simps [simp del]

definition Lexico :: "string \<Rightarrow> Token list" where
  "Lexico input = lexicoDesde input 0"

section \<open>Statement recognizers\<close>

text \<open>
  A recognizer returns its \<open>bool\<close>, the cursor and the globals as it leaves them, also
  when it fails: the driver tries the next recognizer at the cursor the failed one left.
\<close>

type_synonym reconocido = "(bool \<times> nat \<times> Global, unit) resultado"

definition esPuntoYComa :: "Token list \<Rightarrow> nat \<Rightarrow> bool" where
  "esPuntoYComa tokens i =
     (i < length tokens \<and> tipo (tokens ! i) = ''OPERADOR'' \<and> valor (tokens ! i) = '';'')"

definition esDeclaracionVariable :: "Token list \<Rightarrow> nat \<Rightarrow> Global \<Rightarrow> reconocido" where
  "esDeclaracionVariable tokens i g =
     (if i + 3 < length tokens \<and>
         tipo (tokens ! i) = ''VARIABLE'' \<and>
         tipo (tokens ! (i + 1)) = ''IDENTIFICADOR'' \<and>
         tipo (tokens ! (i + 2)) = ''OPERADOR'' \<and> valor (tokens ! (i + 2)) = ''=''
      then
        if list_ex (\<lambda>s. nombre s = valor (tokens ! (i + 1))) (tablaSimbolos g)
        then Normal (False, i, g)
        else
          case
            (if tipo (tokens ! (i + 3)) = ''NUMERO'' \<or> tipo (tokens ! (i + 3)) = ''CADENA''
             then Some (valor (tokens ! (i + 3)))
             else if tipo (tokens ! (i + 3)) = ''IDENTIFICADOR'' then
               (case buscarVariable (tablaSimbolos g) (valor (tokens ! (i + 3))) of
                  None \<Rightarrow> None
                | Some varExistente \<Rightarrow>
                    if valor (tokens ! i) \<noteq> tipoS varExistente then None
                    else Some (valorS varExistente))
             else None)
          of
            None \<Rightarrow> Normal (False, i, g)
          | Some v \<Rightarrow>
              if \<not> esValorCompatible v (valor (tokens ! i)) then Normal (False, i, g)
              else if idGlobalCounter g = 2147483647 then Indefinido
              else
                if esPuntoYComa tokens (i + 4)
                then Normal (True, i + 5,
                  g\<lparr>tablaSimbolos := tablaSimbolos g @
                       [\<lparr>nombre = valor (tokens ! (i + 1)), tipoS = valor (tokens ! i),
                         valorS = v,
                         id_contador = ''id'' @ to_string_int (idGlobalCounter g)\<rparr>],
                     idGlobalCounter := idGlobalCounter g + 1\<rparr>)
                else Normal (False, i + 4,
                  g\<lparr>tablaSimbolos := tablaSimbolos g @
                       [\<lparr>nombre = valor (tokens ! (i + 1)), tipoS = valor (tokens ! i),
                         valorS = v,
                         id_contador = ''id'' @ to_string_int (idGlobalCounter g)\<rparr>],
                     idGlobalCounter := idGlobalCounter g + 1\<rparr>)
      else Normal (False, i, g))"

definition esEscritura :: "Token list \<Rightarrow> nat \<Rightarrow> Global \<Rightarrow> reconocido" where
  "esEscritura tokens i g =
     (if i + 3 < length tokens \<and>
         tipo (tokens ! i) = ''ESCRITURA'' \<and>
         tipo (tokens ! (i + 1)) = ''PARENTESIS_IZQUIERDO'' \<and>
         (tipo (tokens ! (i + 2)) = ''IDENTIFICADOR'' \<or> tipo (tokens ! (i + 2)) = ''NUMERO'' \<or>
          tipo (tokens ! (i + 2)) = ''CADENA'') \<and>
         tipo (tokens ! (i + 3)) = ''PARENTESIS_DERECHO''
      then
        if tipo (tokens ! (i + 2)) = ''IDENTIFICADOR'' \<and>
           buscarVariable (tablaSimbolos g) (valor (tokens ! (i + 2))) = None
        then Normal (False, i, g)
        else if esPuntoYComa tokens (i + 4) then Normal (True, i + 5, g)
        else Normal (True, i + 4, g)
      else Normal (False, i, g))"

definition esLectura :: "Token list \<Rightarrow> nat \<Rightarrow> Global \<Rightarrow> reconocido" where
  "esLectura tokens i g =
     (if i + 3 < length tokens \<and>
         tipo (tokens ! i) = ''LECTURA'' \<and>
         tipo (tokens ! (i + 1)) = ''PARENTESIS_IZQUIERDO'' \<and>
         tipo (tokens ! (i + 2)) = ''IDENTIFICADOR'' \<and>
         tipo (tokens ! (i + 3)) = ''PARENTESIS_DERECHO''
      then
        if buscarVariable (tablaSimbolos g) (valor (tokens ! (i + 2))) = None
        then Normal (False, i, g)
        else if esPuntoYComa tokens (i + 4) then Normal (True, i + 5, g)
        else Normal (True, i + 4, g)
      else Normal (False, i, g))"

text \<open>
  The condition of the \<open>if\<close> that opens \<open>esOperacionAritmetica\<close>, as C++ parses it
  (\<open>&&\<close> binds tighter than \<open>||\<close>) and evaluates it (left to right, short-circuit):
  \<open>(i + 3 < size && T(i) == ID) || (T(i) == "(" && T(i+1) == OPERADOR) || T(i+1) == "("
  || (T(i+1) == ")" && V(i+1) == "=")\<close>. Only the first alternative is guarded by the
  size, so the others can read beyond the vector.
\<close>

definition condicionOperacion :: "Token list \<Rightarrow> nat \<Rightarrow> (bool, unit) resultado" where
  "condicionOperacion tokens i =
     (if i + 3 < length tokens \<and> tipo (tokens ! i) = ''IDENTIFICADOR'' then Normal True
      else if length tokens \<le> i then Indefinido
      else if tipo (tokens ! i) = ''PARENTESIS_IZQUIERDO'' \<and> length tokens \<le> i + 1
      then Indefinido
      else if tipo (tokens ! i) = ''PARENTESIS_IZQUIERDO'' \<and>
              tipo (tokens ! (i + 1)) = ''OPERADOR''
      then Normal True
      else if length tokens \<le> i + 1 then Indefinido
      else if tipo (tokens ! (i + 1)) = ''PARENTESIS_IZQUIERDO'' then Normal True
      else Normal (tipo (tokens ! (i + 1)) = ''PARENTESIS_DERECHO'' \<and>
                   valor (tokens ! (i + 1)) = ''=''))"

text \<open>The loop that writes the result back: the first symbol of that name gets the new
  text, \<open>to_string(static_cast<int>(resultado))\<close> for an \<open>int\<close> destination and
  \<open>to_string(resultado)\<close> otherwise. The cast is only executed when a symbol is found.\<close>

fun actualizarValor :: "string \<Rightarrow> string \<Rightarrow> Simbolo list \<Rightarrow> Simbolo list" where
  "actualizarValor n v [] = []"
| "actualizarValor n v (s # ss) =
     (if nombre s = n then s\<lparr>valorS := v\<rparr> # ss else s # actualizarValor n v ss)"

definition escribirResultado :: "string \<Rightarrow> DataType \<Rightarrow> double \<Rightarrow> Simbolo list \<Rightarrow>
    (Simbolo list, unit) resultado" where
  "escribirResultado n tipoDestino resultado tabla =
     (if list_ex (\<lambda>s. nombre s = n) tabla then
        (if tipoDestino = T_INT then
           (case static_cast_int resultado of
              None \<Rightarrow> Indefinido
            | Some k \<Rightarrow> Normal (actualizarValor n (to_string_int k) tabla))
         else Normal (actualizarValor n (to_string_double resultado) tabla))
      else Normal tabla)"

text \<open>
  \<open>esOperacionAritmetica\<close>. Besides the \<open>bool\<close>, the cursor and the globals, the model
  returns the tree left in the out-parameter \<open>root\<close> (\<open>None\<close> when the call did not
  assign it). \<open>n\<close> is the fuel of \<open>construirAST\<close>. The \<open>catch\<close> block restores the cursor;
  the path on which the terminator is missing leaves the \<open>try\<close> block and reaches the
  final \<open>return false\<close> without restoring it.
\<close>

definition esOperacionAritmetica :: "nat \<Rightarrow> Token list \<Rightarrow> nat \<Rightarrow> Global \<Rightarrow>
    (bool \<times> nat \<times> Node option \<times> Global, unit) resultado" where
  "esOperacionAritmetica n tokens i g =
     luego (condicionOperacion tokens i) (\<lambda>entra.
       if \<not> entra then Normal (False, i, None, g)
       else
         case buscarVariable (tablaSimbolos g) (valor (tokens ! i)) of
           None \<Rightarrow> Normal (False, i, None, g)
         | Some simboloDestino \<Rightarrow>
             intentar (construirAST n (tablaSimbolos g) tokens (i + 2) (pilaSemantica g))
               (\<lambda>(root, i', pila).
                  case pila of
                    [] \<Rightarrow> Indefinido
                  | tipoExpresion # pila' \<Rightarrow>
                      if tipoExpresion \<noteq> stringToDataType (tipoS simboloDestino)
                      then Normal (False, i, Some root, g\<lparr>pilaSemantica := pila'\<rparr>)
                      else if esPuntoYComa tokens i' then
                        intentar (evaluate (tablaSimbolos g) root)
                          (\<lambda>resultado.
                             luego (escribirResultado (valor (tokens ! i))
                                      (stringToDataType (tipoS simboloDestino)) resultado
                                      (tablaSimbolos g))
                               (\<lambda>tabla'.
                                  intentar (luego (mostrarExpresionSimple tabla' root)
                                              (\<lambda>u. evaluate tabla' root))
                                    (\<lambda>r. Normal (True, i' + 1, Some root,
                                            g\<lparr>tablaSimbolos := tabla', pilaSemantica := pila'\<rparr>))
                                    (\<lambda>e u. Normal (False, i, Some root,
                                            g\<lparr>tablaSimbolos := tabla', pilaSemantica := pila'\<rparr>))))
                          (\<lambda>e u. Normal (False, i, Some root, g\<lparr>pilaSemantica := pila'\<rparr>))
                      else Normal (False, i', Some root, g\<lparr>pilaSemantica := pila'\<rparr>))
               (\<lambda>e pila. Normal (False, i, None, g\<lparr>pilaSemantica := pila\<rparr>)))"

section \<open>Blocks and the driver\<close>

text \<open>The shape that \<open>esBloqueIf\<close> and \<open>esBloqueWhile\<close> test first: keyword \<open>(\<close> operand
  comparison operand \<open>)\<close>, with at least one more token behind.\<close>

definition cabecera :: "string \<Rightarrow> string \<Rightarrow> Token list \<Rightarrow> nat \<Rightarrow> bool" where
  "cabecera t v tokens i =
     (i + 6 < length tokens \<and>
      tipo (tokens ! i) = t \<and> valor (tokens ! i) = v \<and>
      tipo (tokens ! (i + 1)) = ''PARENTESIS_IZQUIERDO'' \<and>
      (tipo (tokens ! (i + 2)) = ''IDENTIFICADOR'' \<or> tipo (tokens ! (i + 2)) = ''NUMERO'') \<and>
      tipo (tokens ! (i + 3)) = ''COMPARACION'' \<and>
      (tipo (tokens ! (i + 4)) = ''IDENTIFICADOR'' \<or> tipo (tokens ! (i + 4)) = ''NUMERO'') \<and>
      tipo (tokens ! (i + 5)) = ''PARENTESIS_DERECHO'')"

text \<open>An operand of the condition of an \<open>if\<close>: a number, or a declared variable.\<close>

definition operandoDeclarado :: "Simbolo list \<Rightarrow> Token \<Rightarrow> bool" where
  "operandoDeclarado tabla t =
     (tipo t = ''NUMERO'' \<or> buscarVariable tabla (valor t) \<noteq> None)"

text \<open>One link \<open>if (r(tokens, i)) continue;\<close> of the chain of recognizers: when \<open>r\<close> fails,
  the rest \<open>k\<close> of the chain runs at the cursor and with the globals that \<open>r\<close> left.\<close>

definition siNo :: "reconocido \<Rightarrow> (nat \<Rightarrow> Global \<Rightarrow> reconocido) \<Rightarrow> reconocido" where
  "siNo m k = luego m (\<lambda>(ok, i, g). if ok then Normal (True, i, g) else k i g)"

text \<open>
  \<open>sentencia\<close> is the chain of six \<open>if (...) continue;\<close> that stands in both loops,
  \<open>analizarBloque\<close> and \<open>analisisSintactico\<close>: each recognizer is tried at the cursor and
  with the globals that the one before left. The local \<open>root\<close> of the two loops is only
  written, so the model drops it. The recursion of the source is on nested blocks and on
  the cursor; the model recurses on fuel.
\<close>

function analizarBloque :: "nat \<Rightarrow> Token list \<Rightarrow> nat \<Rightarrow> Global \<Rightarrow> reconocido"
  and sentencia :: "nat \<Rightarrow> Token list \<Rightarrow> nat \<Rightarrow> Global \<Rightarrow> reconocido"
  and esBloqueIf :: "nat \<Rightarrow> Token list \<Rightarrow> nat \<Rightarrow> Global \<Rightarrow> reconocido"
  and esBloqueWhile :: "nat \<Rightarrow> Token list \<Rightarrow> nat \<Rightarrow> Global \<Rightarrow> reconocido"
where
  "analizarBloque 0 tokens i g = SinCombustible"
| "analizarBloque (Suc n) tokens i g =
     (if i < length tokens \<and> tipo (tokens ! i) \<noteq> ''LLAVE_DERECHA'' then
        luego (sentencia n tokens i g) (\<lambda>(ok, i', g').
          if ok then analizarBloque n tokens i' g' else Normal (False, i', g'))
      else Normal (True, i, g))"
| "sentencia n tokens i g =
     siNo (esDeclaracionVariable tokens i g) (\<lambda>i g.
     siNo (esEscritura tokens i g) (\<lambda>i g.
     siNo (esLectura tokens i g) (\<lambda>i g.
     siNo (esBloqueIf n tokens i g) (\<lambda>i g.
     siNo (esBloqueWhile n tokens i g) (\<lambda>i g.
     luego (esOperacionAritmetica n tokens i g) (\<lambda>(ok, i, raiz, g). Normal (ok, i, g)))))))"
| "esBloqueWhile n tokens i g =
     (if cabecera ''CICLO'' ''while'' tokens i then
        (if tipo (tokens ! (i + 6)) = ''LLAVE_IZQUIERDA'' then
           luego (analizarBloque n tokens (i + 7) g) (\<lambda>(ok, i', g').
             if \<not> ok then Normal (False, i', g')
             else if i' < length tokens \<and> tipo (tokens ! i') = ''LLAVE_DERECHA''
             then Normal (True, i' + 1, g')
             else Normal (False, i', g'))
         else Normal (False, i + 6, g))
      else Normal (False, i, g))"
| "esBloqueIf n tokens i g =
     (if cabecera ''CONDICION'' ''if'' tokens i then
        (if \<not> operandoDeclarado (tablaSimbolos g) (tokens ! (i + 2)) then Normal (False, i, g)
         else if \<not> operandoDeclarado (tablaSimbolos g) (tokens ! (i + 4))
         then Normal (False, i, g)
         else if tipo (tokens ! (i + 6)) = ''LLAVE_IZQUIERDA'' then
           luego (analizarBloque n tokens (i + 7) g) (\<lambda>(ok, i', g').
             if \<not> ok then Normal (False, i', g')
             else if i' < length tokens \<and> tipo (tokens ! i') = ''LLAVE_DERECHA'' then
               (if i' + 1 < length tokens \<and> tipo (tokens ! (i' + 1)) = ''CONDICION'' \<and>
                   valor (tokens ! (i' + 1)) = ''else''
                then
                  (if i' + 2 < length tokens \<and> tipo (tokens ! (i' + 2)) = ''LLAVE_IZQUIERDA''
                   then
                     luego (analizarBloque n tokens (i' + 3) g') (\<lambda>(ok2, i'', g'').
                       if \<not> ok2 then Normal (False, i'', g'')
                       else if i'' < length tokens \<and> tipo (tokens ! i'') = ''LLAVE_DERECHA''
                       then Normal (True, i'' + 1, g'')
                       else Normal (True, i'', g''))
                   else Normal (False, i' + 2, g'))
                else Normal (True, i' + 1, g'))
             else Normal (False, i', g'))
         else Normal (False, i + 6, g))
      else Normal (False, i, g))"
  by pat_completeness auto
termination
  by (relation "measure (\<lambda>x. case x of
        Inl (Inl (n, tokens, i, g)) \<Rightarrow> 3 * n
      | Inl (Inr (n, tokens, i, g)) \<Rightarrow> 3 * n + 2
      | Inr (Inl (n, tokens, i, g)) \<Rightarrow> 3 * n + 1
      | Inr (Inr (n, tokens, i, g)) \<Rightarrow> 3 * n + 1)") auto

text \<open>The loop of \<open>analisisSintactico\<close>: \<open>limpiarPilaSemantica\<close> empties the stack before
  each statement.\<close>

fun bucleAnalisis :: "nat \<Rightarrow> Token list \<Rightarrow> nat \<Rightarrow> Global \<Rightarrow> reconocido" where
  "bucleAnalisis 0 tokens i g = SinCombustible"
| "bucleAnalisis (Suc n) tokens i g =
     (if i < length tokens then
        luego (sentencia n tokens i (g\<lparr>pilaSemantica := []\<rparr>)) (\<lambda>(ok, i', g').
          if ok then bucleAnalisis n tokens i' g' else Normal (False, i', g'))
      else Normal (True, i, g))"

definition analisisSintactico :: "nat \<Rightarrow> Token list \<Rightarrow> Global \<Rightarrow> reconocido" where
  "analisisSintactico n tokens g = bucleAnalisis n tokens 0 g"

text \<open>The globals when \<open>main\<close> starts, and \<open>main\<close> from the source text on: the verdict
  and the globals at the end.\<close>

definition inicial :: Global where
  "inicial = \<lparr>tablaSimbolos = [], idGlobalCounter = 1, pilaSemantica = []\<rparr>"

definition programa :: "nat \<Rightarrow> string \<Rightarrow> reconocido" where
  "programa n codigo = analisisSintactico n (Lexico codigo) inicial"

section \<open>Expressions as they are written\<close>







text \<open>The six tokens of the statement \<open>s = s + t;\<close>.\<close>

definition sentenciaSuma :: "string \<Rightarrow> string \<Rightarrow> Token list" where
  "sentenciaSuma s t =
     [\<lparr>tipo = ''IDENTIFICADOR'', valor = s\<rparr>, \<lparr>tipo = ''OPERADOR'', valor = ''=''\<rparr>,
      \<lparr>tipo = ''IDENTIFICADOR'', valor = s\<rparr>, \<lparr>tipo = ''ARITMETICO'', valor = ''+''\<rparr>,
      \<lparr>tipo = ''IDENTIFICADOR'', valor = t\<rparr>, \<lparr>tipo = ''OPERADOR'', valor = '';''\<rparr>]"

text \<open>The invariant of claim C9: no two symbols of the table have the same name.\<close>

definition nombresDistintos :: "Global \<Rightarrow> bool" where
  "nombresDistintos g = distinct (map nombre (tablaSimbolos g))"

section \<open>Values for the examples\<close>

text \<open>A symbol and the globals from their fields, in the order of the C++ aggregates.\<close>

definition simbolo :: "string \<Rightarrow> string \<Rightarrow> string \<Rightarrow> string \<Rightarrow> Simbolo" where
  "simbolo n t v c = \<lparr>nombre = n, tipoS = t, valorS = v, id_contador = c\<rparr>"

definition globales :: "Simbolo list \<Rightarrow> int \<Rightarrow> DataType list \<Rightarrow> Global" where
  "globales t c p = \<lparr>tablaSimbolos = t, idGlobalCounter = c, pilaSemantica = p\<rparr>"

text \<open>The globals after \<open>int x=5; int y=3; int z=0;\<close>, with the value \<open>v\<close> in \<open>z\<close>.\<close>

definition xyz :: "string \<Rightarrow> Global" where
  "xyz v = globales [simbolo ''x'' ''int'' ''5'' ''id1'', simbolo ''y'' ''int'' ''3'' ''id2'',
       simbolo ''z'' ''int'' v ''id3''] 4 []"

text \<open>The two declarations of the program \<open>string s = "a"; string t = "b"; s = s + t;\<close>
  (the double quote is \<open>CHR 0x22\<close>) and the table they give.\<close>

definition declaracionesST :: string where
  "declaracionesST = ''string s = '' @ [CHR 0x22, CHR ''a'', CHR 0x22] @ ''; string t = '' @
       [CHR 0x22, CHR ''b'', CHR 0x22] @ '';''"

definition tablaST :: "Simbolo list" where
  "tablaST = [simbolo ''s'' ''string'' [CHR 0x22, CHR ''a'', CHR 0x22] ''id1'',
      simbolo ''t'' ''string'' [CHR 0x22, CHR ''b'', CHR 0x22] ''id2'']"

text \<open>A recognizer keeps the names distinct.\<close>

definition conserva :: "(Token list \<Rightarrow> nat \<Rightarrow> Global \<Rightarrow> reconocido) \<Rightarrow> bool" where
  "conserva f = (\<forall>tokens i g ok i' g'.
     nombresDistintos g \<longrightarrow> f tokens i g = Normal (ok, i', g') \<longrightarrow> nombresDistintos g')"

declare construirAST.simps [simp del] operando.simps [simp del] operadores.simps [simp del]
  sentencia.simps [simp del]
  esBloqueIf.simps [simp del] esBloqueWhile.simps [simp del]

section \<open>Basic facts\<close>

lemma intentar_Normal:
  "intentar m f h = Normal y \<Longrightarrow>
     (\<exists>x. m = Normal x \<and> f x = Normal y) \<or> (\<exists>e s. m = Lanza e s \<and> h e s = Normal y)"
  by (cases m) auto

lemma luego_Normal:
  "luego m f = Normal y \<Longrightarrow> \<exists>x. m = Normal x \<and> f x = Normal y"
  unfolding luego_def by (cases m) auto

lemma siNo_Normal:
  "siNo m k = Normal (ok, i', g') \<Longrightarrow>
     (m = Normal (True, i', g') \<and> ok) \<or>
     (\<exists>i1 g1. m = Normal (False, i1, g1) \<and> k i1 g1 = Normal (ok, i', g'))"
  unfolding siNo_def by (auto dest!: luego_Normal split: if_splits)

lemma list_ex_nombre: "list_ex (\<lambda>s. nombre s = x) tabla \<longleftrightarrow> x \<in> set (map nombre tabla)"
  by (induction tabla) auto







section \<open>The write-back of an assignment\<close>



section \<open>Where the code departs from the specification\<close>

text \<open>
  Claim C2 (symbols are created only by successful declarations; a failed declaration
  leaves the table and the counter as they were). The code appends the symbol and
  increments the counter before it looks for the terminator: on \<open>int x = 5\<close> with no
  semicolon behind, \<open>esDeclaracionVariable\<close> returns \<open>false\<close> and has declared \<open>x\<close>. On
  \<open>int x = 5 int y = 2;\<close> the whole analysis ends invalid with \<open>x\<close> in the table.
\<close>

theorem declaracion_fallida_declara:
  "esDeclaracionVariable (Lexico ''int x = 5'') 0 inicial =
     Normal (False, 4, globales [simbolo ''x'' ''int'' ''5'' ''id1''] 2 []) \<and>
   programa 20 ''int x = 5 int y = 2;'' =
     Normal (False, 4, globales [simbolo ''x'' ''int'' ''5'' ''id1''] 2 [])"
  by code_simp

text \<open>
  Claim C3 (the assignment recognizer fails, and assigns nothing, when the token after
  the identifier is not \<open>=\<close>). The condition of the recognizer never reaches its test
  of \<open>=\<close> when the token at the cursor is an identifier with three tokens behind it: on
  \<open>x + 1;\<close> with \<open>x\<close> an \<open>int\<close> of value 5 the recognizer succeeds and stores 1 in \<open>x\<close>.
\<close>

theorem asignacion_sin_signo_igual:
  "Lexico ''x + 1;'' ! 1 = \<lparr>tipo = ''ARITMETICO'', valor = ''+''\<rparr> \<and>
   esOperacionAritmetica 3 (Lexico ''x + 1;'') 0
     (globales [simbolo ''x'' ''int'' ''5'' ''id1''] 2 []) =
   Normal (True, 4, Some (NumberNode 1 T_INT),
     globales [simbolo ''x'' ''int'' ''1'' ''id1''] 2 [])"
  by code_simp

text \<open>
  Claim C6 (two \<open>string\<close> operands under an operator other than \<open>+\<close> make the build
  fail). The type check inside \<open>construirAST\<close> has no rule for strings: on the
  expression of \<open>s = s - t;\<close> with \<open>s\<close> and \<open>t\<close> strings the build returns a tree and
  leaves \<open>T_STRING\<close> on the stack. The rule is in \<open>OperatorNode::getType\<close>, which rejects
  that tree when \<open>evaluate\<close> calls it.
\<close>

theorem resta_de_strings_se_construye:
  "construirAST 3
     [simbolo ''s'' ''string'' ''a'' ''id1'', simbolo ''t'' ''string'' ''b'' ''id2'']
     (Lexico ''s = s - t;'') 2 [] =
   Normal (OperatorNode CHR ''-'' (VariableNode ''s'') (VariableNode ''t''), 5, [T_STRING]) \<and>
   getType [simbolo ''s'' ''string'' ''a'' ''id1'', simbolo ''t'' ''string'' ''b'' ''id2'']
     (OperatorNode CHR ''-'' (VariableNode ''s'') (VariableNode ''t'')) =
   Lanza SoloConcatenacion ()"
  by code_simp

text \<open>
  Claim C7 (the assignment recognizer restores the cursor on every failure inside its
  branch, a missing terminator included). The \<open>catch\<close> block and the type mismatch
  restore \<open>posInicial\<close>; the path on which the terminator is missing does not: on
  \<open>x = 1 x\<close> (cursor 5 of \<open>int x = 5; x = 1 x\<close>) the recognizer returns \<open>false\<close> with the
  cursor at 8.
\<close>

theorem terminador_ausente_no_restaura:
  "esOperacionAritmetica 3 (Lexico ''int x = 5; x = 1 x'') 5
     (globales [simbolo ''x'' ''int'' ''5'' ''id1''] 2 []) =
   Normal (False, 8, Some (NumberNode 1 T_INT),
     globales [simbolo ''x'' ''int'' ''5'' ''id1''] 2 [])"
  by code_simp

section \<open>Expressions associate to the left\<close>

lemma operadores_fin:
  "\<not> (i < length tokens \<and> tipo (tokens ! i) = ''ARITMETICO'') \<Longrightarrow>
   operadores (Suc m) tabla tokens i p a = Normal (a, i, p)"
  unfolding operadores.simps by (rule if_not_P)










section \<open>String concatenation is typed but not evaluated\<close>

lemma getTypeVariable_string:
  "buscarVariable tabla x = Some d \<Longrightarrow> tipoS d = ''string'' \<Longrightarrow>
     getTypeVariable tabla x = Normal T_STRING"
  by (induction tabla) (auto simp: buscarVariable_def split: if_splits)

lemma operando_identificador:
  "i < length tokens \<Longrightarrow> tokens ! i = \<lparr>tipo = ''IDENTIFICADOR'', valor = x\<rparr> \<Longrightarrow>
   getTypeVariable tabla x = Normal ty \<Longrightarrow>
   operando m b tabla tokens i p = Normal (VariableNode x, Suc i, ty # p)"
  by (simp add: operando.simps hoja_def)

lemma operadores_paso:
  "i < length tokens \<Longrightarrow> tipo (tokens ! i) = ''ARITMETICO'' \<Longrightarrow>
   operando m False tabla tokens (Suc i) p = Normal (r, j, p') \<Longrightarrow>
   verificarTipos p' = Normal p'' \<Longrightarrow>
   operadores (Suc m) tabla tokens i p a =
     operadores m tabla tokens j p'' (OperatorNode (primerCaracter (valor (tokens ! i))) a r)"
  by (simp add: operadores.simps luego_def)

lemma construirAST_paso:
  "operando m True tabla tokens i p = Normal (a, j, p') \<Longrightarrow>
   construirAST (Suc m) tabla tokens i p = operadores m tabla tokens j p' a"
  by (simp add: construirAST.simps luego_def)

text \<open>
  Claim C4. Wherever the statement \<open>s = s + t;\<close> stands (after any tokens \<open>pre\<close>, before
  any tokens \<open>post\<close>) and whatever the table is, provided \<open>s\<close> and \<open>t\<close> are declared
  \<open>string\<close>: the build accepts the expression and leaves \<open>T_STRING\<close> on the stack, which
  is the type of the destination, so the type check of the assignment passes; every
  evaluation of the tree throws the error of \<open>OperatorNode::evaluate\<close> for strings; and
  the recognizer fails, with the cursor and the globals as they were.
\<close>

theorem concatenacion_de_strings:
  assumes s: "buscarVariable (tablaSimbolos g) s = Some ds" "tipoS ds = ''string''"
      and t: "buscarVariable (tablaSimbolos g) t = Some dt" "tipoS dt = ''string''"
  shows "construirAST (Suc (Suc (Suc n))) (tablaSimbolos g) (pre @ sentenciaSuma s t @ post) (length pre + 2) pila
           = Normal (OperatorNode CHR ''+'' (VariableNode s) (VariableNode t), length pre + 5, T_STRING # pila) \<and>
         stringToDataType (tipoS ds) = T_STRING \<and>
         evaluate (tablaSimbolos g) (OperatorNode CHR ''+'' (VariableNode s) (VariableNode t)) = Lanza OperacionConStrings () \<and>
         esOperacionAritmetica (Suc (Suc (Suc n))) (pre @ sentenciaSuma s t @ post) (length pre) g
           = Normal (False, length pre, Some (OperatorNode CHR ''+'' (VariableNode s) (VariableNode t)), g)"
proof -
  let ?tokens = "pre @ sentenciaSuma s t @ post"
  let ?arbol = "OperatorNode CHR ''+'' (VariableNode s) (VariableNode t)"
  let ?tabla = "tablaSimbolos g"
  define i where "i = length pre"
  have n: "Suc (Suc (Suc (Suc (Suc i)))) < length ?tokens"
    by (simp add: sentenciaSuma_def i_def)
  have t0: "?tokens ! i = \<lparr>tipo = ''IDENTIFICADOR'', valor = s\<rparr>"
    and t2: "?tokens ! Suc (Suc i) = \<lparr>tipo = ''IDENTIFICADOR'', valor = s\<rparr>"
    and t3: "?tokens ! Suc (Suc (Suc i)) = \<lparr>tipo = ''ARITMETICO'', valor = ''+''\<rparr>"
    and t4: "?tokens ! Suc (Suc (Suc (Suc i))) = \<lparr>tipo = ''IDENTIFICADOR'', valor = t\<rparr>"
    and t5: "?tokens ! Suc (Suc (Suc (Suc (Suc i)))) = \<lparr>tipo = ''OPERADOR'', valor = '';''\<rparr>"
    by (simp_all add: nth_append sentenciaSuma_def i_def)
  have gs: "getTypeVariable ?tabla s = Normal T_STRING"
    and gt: "getTypeVariable ?tabla t = Normal T_STRING"
    using s t by (simp_all add: getTypeVariable_string)
  have o1: "operando (Suc (Suc n)) True ?tabla ?tokens (Suc (Suc i)) p =
      Normal (VariableNode s, Suc (Suc (Suc i)), T_STRING # p)" for p
    using n by (intro operando_identificador t2 gs) simp
  have o2: "operando (Suc n) False ?tabla ?tokens (Suc (Suc (Suc (Suc i)))) p =
      Normal (VariableNode t, Suc (Suc (Suc (Suc (Suc i)))), T_STRING # p)" for p
    using n by (intro operando_identificador t4 gt) simp
  have v: "verificarTipos (T_STRING # T_STRING # p) = Normal (T_STRING # p)" for p
    by (simp add: verificarTipos_def)
  have c: "construirAST (Suc (Suc (Suc n))) ?tabla ?tokens (Suc (Suc i)) p =
      Normal (?arbol, Suc (Suc (Suc (Suc (Suc i)))), T_STRING # p)" for p
  proof -
    have "construirAST (Suc (Suc (Suc n))) ?tabla ?tokens (Suc (Suc i)) p =
        operadores (Suc (Suc n)) ?tabla ?tokens (Suc (Suc (Suc i))) (T_STRING # p) (VariableNode s)"
      by (rule construirAST_paso [OF o1])
    also have "\<dots> = operadores (Suc n) ?tabla ?tokens (Suc (Suc (Suc (Suc (Suc i))))) (T_STRING # p)
        (OperatorNode (primerCaracter (valor (?tokens ! Suc (Suc (Suc i))))) (VariableNode s) (VariableNode t))"
      using n by (intro operadores_paso [OF _ _ o2 v]) (simp_all add: t3)
    also have "\<dots> = Normal (?arbol, Suc (Suc (Suc (Suc (Suc i)))), T_STRING # p)"
      by (simp add: operadores_fin t5 t3 primerCaracter_def)
    finally show ?thesis .
  qed
  have e: "evaluate ?tabla ?arbol = Lanza OperacionConStrings ()"
    by (simp add: gs gt luego_def)
  have d: "stringToDataType (tipoS ds) = T_STRING"
    using s(2) by (simp add: stringToDataType_def)
  have co: "condicionOperacion ?tokens i = Normal True"
    using n by (simp add: condicionOperacion_def t0)
  have pc: "esPuntoYComa ?tokens (Suc (Suc (Suc (Suc (Suc i)))))"
    using n by (simp add: esPuntoYComa_def t5)
  have "esOperacionAritmetica (Suc (Suc (Suc n))) ?tokens i g =
      Normal (False, i, Some ?arbol, g)"
    using s(1) c [of "pilaSemantica g"] pc
    by (simp add: esOperacionAritmetica_def co luego_def d e t0 del: evaluate.simps)
  with c [of pila] d e show ?thesis by (simp add: i_def eval_nat_numeral)
qed

text \<open>The theorem on the program of the claim: the statement stands behind the ten
  tokens of the two declarations; the whole analysis ends invalid at cursor 10, with the
  table as the declarations left it.\<close>

theorem concatenacion_de_strings_witness:
  "(construirAST (Suc (Suc (Suc 0))) (tablaSimbolos (globales tablaST 3 []))
      (Lexico declaracionesST @ sentenciaSuma ''s'' ''t'' @ [])
      (length (Lexico declaracionesST) + 2) [] =
    Normal (OperatorNode CHR ''+'' (VariableNode ''s'') (VariableNode ''t''),
      length (Lexico declaracionesST) + 5, [T_STRING]) \<and>
    stringToDataType
      (tipoS (simbolo ''s'' ''string'' [CHR 0x22, CHR ''a'', CHR 0x22] ''id1'')) = T_STRING \<and>
    evaluate (tablaSimbolos (globales tablaST 3 []))
      (OperatorNode CHR ''+'' (VariableNode ''s'') (VariableNode ''t'')) =
    Lanza OperacionConStrings () \<and>
    esOperacionAritmetica (Suc (Suc (Suc 0)))
      (Lexico declaracionesST @ sentenciaSuma ''s'' ''t'' @ [])
      (length (Lexico declaracionesST)) (globales tablaST 3 []) =
    Normal (False, length (Lexico declaracionesST),
      Some (OperatorNode CHR ''+'' (VariableNode ''s'') (VariableNode ''t'')),
      globales tablaST 3 [])) \<and>
   (Lexico (declaracionesST @ '' s = s + t;'') =
      Lexico declaracionesST @ sentenciaSuma ''s'' ''t'' @ [] \<and>
    length (Lexico declaracionesST) = 10 \<and>
    programa 20 (declaracionesST @ '' s = s + t;'') =
      Normal (False, 10, globales tablaST 3 []))"
proof -
  have s: "buscarVariable (tablaSimbolos (globales tablaST 3 [])) ''s'' =
      Some (simbolo ''s'' ''string'' [CHR 0x22, CHR ''a'', CHR 0x22] ''id1'')"
    by code_simp
  have t: "buscarVariable (tablaSimbolos (globales tablaST 3 [])) ''t'' =
      Some (simbolo ''t'' ''string'' [CHR 0x22, CHR ''b'', CHR 0x22] ''id2'')"
    by code_simp
  have ts: "tipoS (simbolo ''s'' ''string'' [CHR 0x22, CHR ''a'', CHR 0x22] ''id1'') = ''string''"
    by (simp add: simbolo_def)
  have tt: "tipoS (simbolo ''t'' ''string'' [CHR 0x22, CHR ''b'', CHR 0x22] ''id2'') = ''string''"
    by (simp add: simbolo_def)
  have tk: "Lexico (declaracionesST @ '' s = s + t;'') =
      Lexico declaracionesST @ sentenciaSuma ''s'' ''t'' @ []"
    by code_simp
  have l: "length (Lexico declaracionesST) = 10" by code_simp
  have p: "programa 20 (declaracionesST @ '' s = s + t;'') =
      Normal (False, 10, globales tablaST 3 [])"
    by code_simp
  from tk l p have r: "Lexico (declaracionesST @ '' s = s + t;'') =
      Lexico declaracionesST @ sentenciaSuma ''s'' ''t'' @ [] \<and>
    length (Lexico declaracionesST) = 10 \<and>
    programa 20 (declaracionesST @ '' s = s + t;'') =
      Normal (False, 10, globales tablaST 3 [])"
    by (intro conjI)
  from concatenacion_de_strings [where n = 0 and pre = "Lexico declaracionesST"
      and post = "[]" and pila = "[]", OF s ts t tt] r
  show ?thesis by (rule conjI)
qed



section \<open>An assignment to an \<open>int\<close> truncates toward zero\<close>






section \<open>Number tokens carry no sign\<close>

lemma primerPatron_de:
  "primerPatron ps s = Some (t, n) \<Longrightarrow> \<exists>p. (p, t) \<in> set ps \<and> p s = Some n"
  by (induction ps) (auto split: option.splits)

lemma no_digito [simp]: "\<not> esDigito CHR ''.''" "\<not> esDigito CHR ''-''"
  by (simp_all add: esDigito_def)

lemma take_takeWhile: "take (length (takeWhile P xs)) xs = takeWhile P xs"
  by (induction xs) auto

lemma takeWhile_todo: "list_all P xs \<Longrightarrow> takeWhile P (xs @ y # ys) = (if P y then xs @ takeWhile P (y # ys) else xs)"
  by (induction xs) auto

lemma numeros_texto:
  assumes "numeros s = Some n"
  shows "\<exists>ent dec. ent \<noteq> [] \<and> list_all esDigito ent \<and> list_all esDigito dec \<and>
     (take n s = ent \<or> (dec \<noteq> [] \<and> take n s = ent @ CHR ''.'' # dec))"
proof -
  let ?ent = "takeWhile esDigito s" and ?r = "dropWhile esDigito s"
  have s: "s = ?ent @ ?r" by simp
  have ent: "list_all esDigito ?ent" by (simp add: list_all_iff) (meson set_takeWhileD)
  from assms have ne: "?ent \<noteq> []" by (auto simp: numeros_def Let_def split: if_splits)
  show ?thesis
  proof (cases "?r \<noteq> [] \<and> hd ?r = CHR ''.'' \<and> takeWhile esDigito (tl ?r) \<noteq> []")
    case True
    let ?dec = "takeWhile esDigito (tl ?r)"
    from True assms have n: "n = length ?ent + 1 + length ?dec"
      by (auto simp: numeros_def Let_def split: if_splits)
    from True have r: "?r = CHR ''.'' # ?dec @ dropWhile esDigito (tl ?r)"
      by (cases ?r) auto
    have "take n s = take n (?ent @ CHR ''.'' # ?dec @ dropWhile esDigito (tl ?r))"
      using s r by metis
    also have "\<dots> = ?ent @ CHR ''.'' # ?dec" by (simp add: n take_takeWhile)
    finally have "take n s = ?ent @ CHR ''.'' # ?dec" .
    moreover have "list_all esDigito ?dec" by (simp add: list_all_iff) (meson set_takeWhileD)
    ultimately show ?thesis using ne ent True by blast
  next
    case False
    with assms have "n = length ?ent" by (auto simp: numeros_def Let_def split: if_splits)
    then have "take n s = ?ent" by (simp add: take_takeWhile)
    with ne ent show ?thesis by (intro exI [of _ ?ent] exI [of _ "[]"]) simp
  qed
qed

lemma digitos_sin_menos: "list_all esDigito xs \<Longrightarrow> CHR ''-'' \<notin> set xs"
  by (induction xs) auto

lemma esFlotante_entero:
  "ent \<noteq> [] \<Longrightarrow> list_all esDigito ent \<Longrightarrow> esFlotante ent"
  by (cases ent) (auto simp: esFlotante_def Let_def list_all_iff takeWhile_eq_all_conv[THEN iffD2] dropWhile_eq_Nil_conv[THEN iffD2])

lemma esFlotante_decimal:
  "ent \<noteq> [] \<Longrightarrow> list_all esDigito ent \<Longrightarrow> dec \<noteq> [] \<Longrightarrow> list_all esDigito dec \<Longrightarrow>
     esFlotante (ent @ CHR ''.'' # dec)"
  by (cases ent) (auto simp: esFlotante_def Let_def takeWhile_append dropWhile_append list_all_iff)


lemma patrones_NUMERO: "(p, ''NUMERO'') \<in> set patrones \<Longrightarrow> p = numeros"
  by (simp add: patrones_def)

lemma primerPatron_NUMERO:
  assumes "primerPatron patrones s = Some (''NUMERO'', n)"
  shows "esFlotante (take n s) \<and> CHR ''-'' \<notin> set (take n s)"
proof -
  from primerPatron_de [OF assms] patrones_NUMERO have "numeros s = Some n" by blast
  from numeros_texto [OF this] obtain ent dec where
    e: "ent \<noteq> []" "list_all esDigito ent" "list_all esDigito dec"
    and t: "take n s = ent \<or> (dec \<noteq> [] \<and> take n s = ent @ CHR ''.'' # dec)" by blast
  from t show ?thesis
  proof
    assume "take n s = ent"
    with e show ?thesis by (simp add: esFlotante_entero digitos_sin_menos)
  next
    assume "dec \<noteq> [] \<and> take n s = ent @ CHR ''.'' # dec"
    with e show ?thesis by (simp add: esFlotante_decimal digitos_sin_menos)
  qed
qed

lemma lexicoDesde_numeros:
  "t \<in> set (lexicoDesde input pos) \<Longrightarrow> tipo t = ''NUMERO'' \<Longrightarrow>
     esFlotante (valor t) \<and> CHR ''-'' \<notin> set (valor t)"
proof (induction input pos rule: lexicoDesde.induct)
  case (1 input pos)
  show ?case
  proof (cases "pos < length input")
    case False
    with "1.prems" show ?thesis by (simp add: lexicoDesde.simps [of input pos])
  next
    case True
    show ?thesis
    proof (cases "primerPatron patrones (drop pos input)")
      case None
      with True "1.prems" have "t \<in> set (lexicoDesde input (pos + 1))"
        by (simp add: lexicoDesde.simps [of input pos])
      from "1.IH"(1) [OF True None this "1.prems"(2)] show ?thesis .
    next
      case (Some a)
      obtain ty n where a: "a = (ty, n)" by (cases a)
      from True Some a "1.prems" have
        "t = \<lparr>tipo = ty, valor = take n (drop pos input)\<rparr> \<or> t \<in> set (lexicoDesde input (pos + n))"
        by (simp add: lexicoDesde.simps [of input pos])
      then show ?thesis
      proof
        assume t: "t = \<lparr>tipo = ty, valor = take n (drop pos input)\<rparr>"
        with "1.prems"(2) have "ty = ''NUMERO''" by simp
        with Some a have "primerPatron patrones (drop pos input) = Some (''NUMERO'', n)" by simp
        from primerPatron_NUMERO [OF this] t show ?thesis by simp
      next
        assume "t \<in> set (lexicoDesde input (pos + n))"
        from "1.IH"(2) [OF True Some a [symmetric] this "1.prems"(2)] show ?thesis .
      qed
    qed
  qed
qed

text \<open>
  Claim C8, as the code has it: the pattern \<open>numeros\<close> is \<open>\d+(\.\d+)?\<close>, with no sign,
  and the pattern of the arithmetic operators stands before it in the list. The text of
  every token of kind \<open>NUMERO\<close> that \<open>Lexico\<close> emits is digits, or digits, a point and
  digits (it passes \<open>esFlotante\<close>, the test for \<open>-?\d+(\.\d+)?\<close>), and holds no minus sign.
\<close>

theorem numeros_sin_signo:
  "t \<in> set (Lexico input) \<Longrightarrow> tipo t = ''NUMERO'' \<Longrightarrow>
     esFlotante (valor t) \<and> CHR ''-'' \<notin> set (valor t)"
  unfolding Lexico_def by (rule lexicoDesde_numeros)

theorem numeros_sin_signo_witness:
  "\<lparr>tipo = ''NUMERO'', valor = ''3.25''\<rparr> \<in> set (Lexico ''x = 0 - 3.25;'') \<and>
   esFlotante ''3.25'' \<and> CHR ''-'' \<notin> set ''3.25''"
proof -
  have m: "\<lparr>tipo = ''NUMERO'', valor = ''3.25''\<rparr> \<in> set (Lexico ''x = 0 - 3.25;'')"
    by code_simp
  from numeros_sin_signo [OF m] m show ?thesis by simp
qed

text \<open>Claim C8 as it is stated fails on the literal of the claim: \<open>-5\<close> gives two tokens,
  the operator \<open>-\<close> and the number \<open>5\<close>.\<close>

theorem menos_cinco_son_dos_tokens:
  "Lexico ''-5'' =
     [\<lparr>tipo = ''ARITMETICO'', valor = ''-''\<rparr>, \<lparr>tipo = ''NUMERO'', valor = ''5''\<rparr>]"
  by code_simp

section \<open>The names of the table stay distinct\<close>

lemma esDeclaracionVariable_distintos:
  assumes "esDeclaracionVariable tokens i g = Normal (ok, i', g')" and "nombresDistintos g"
  shows "nombresDistintos g'"
  using assms unfolding esDeclaracionVariable_def nombresDistintos_def
  by (auto simp: list_ex_nombre split: if_splits option.splits)

lemma esEscritura_globales: "esEscritura tokens i g = Normal (ok, i', g') \<Longrightarrow> g' = g"
  unfolding esEscritura_def by (auto split: if_splits)

lemma esLectura_globales: "esLectura tokens i g = Normal (ok, i', g') \<Longrightarrow> g' = g"
  unfolding esLectura_def by (auto split: if_splits)

lemma nombres_actualizarValor: "map nombre (actualizarValor x v tabla) = map nombre tabla"
  by (induction tabla) auto

lemma nombres_escribirResultado:
  "escribirResultado x t r tabla = Normal tabla' \<Longrightarrow> map nombre tabla' = map nombre tabla"
  by (auto simp: escribirResultado_def nombres_actualizarValor split: if_splits option.splits)

lemma esOperacionAritmetica_nombres:
  assumes "esOperacionAritmetica n tokens i g = Normal (ok, i', raiz, g')"
  shows "map nombre (tablaSimbolos g') = map nombre (tablaSimbolos g)"
  using assms unfolding esOperacionAritmetica_def
  by (auto dest!: luego_Normal intentar_Normal nombres_escribirResultado
      split: if_splits option.splits list.splits)

lemma esOperacionAritmetica_distintos:
  assumes "esOperacionAritmetica n tokens i g = Normal (ok, i', raiz, g')" and "nombresDistintos g"
  shows "nombresDistintos g'"
  using assms(2) esOperacionAritmetica_nombres [OF assms(1)] by (simp add: nombresDistintos_def)

lemma conservaD:
  "conserva f \<Longrightarrow> f tokens i g = Normal (ok, i', g') \<Longrightarrow> nombresDistintos g \<Longrightarrow> nombresDistintos g'"
  unfolding conserva_def by blast

lemma conserva_sentencia:
  assumes "conserva (esBloqueIf n)" and "conserva (esBloqueWhile n)"
  shows "conserva (sentencia n)"
  unfolding conserva_def
proof (intro allI impI)
  fix tokens i g ok i' g'
  assume inv: "nombresDistintos g" and s: "sentencia n tokens i g = Normal (ok, i', g')"
  show "nombresDistintos g'"
    using s inv unfolding sentencia.simps
    by (auto dest!: siNo_Normal luego_Normal)
       (blast dest: esDeclaracionVariable_distintos esEscritura_globales esLectura_globales
          esOperacionAritmetica_distintos conservaD [OF assms(1)] conservaD [OF assms(2)])+
qed

lemma conserva_esBloqueWhile:
  assumes "conserva (analizarBloque n)"
  shows "conserva (esBloqueWhile n)"
  unfolding conserva_def esBloqueWhile.simps
  by (auto dest!: luego_Normal split: if_splits) (blast dest: conservaD [OF assms])+

lemma conserva_esBloqueIf:
  assumes "conserva (analizarBloque n)"
  shows "conserva (esBloqueIf n)"
  unfolding conserva_def esBloqueIf.simps
  by (auto dest!: luego_Normal split: if_splits) (blast dest: conservaD [OF assms])+

lemma conserva_analizarBloque: "conserva (analizarBloque n)"
proof (induction n)
  case 0
  show ?case by (simp add: conserva_def)
next
  case (Suc n)
  have s: "conserva (sentencia n)"
    using Suc by (intro conserva_sentencia conserva_esBloqueIf conserva_esBloqueWhile)
  show ?case
    unfolding conserva_def
    by (auto dest!: luego_Normal split: if_splits)
       (blast dest: conservaD [OF s] conservaD [OF Suc])+
qed

lemma conserva_sentencia_n: "conserva (sentencia n)"
  by (intro conserva_sentencia conserva_esBloqueIf conserva_esBloqueWhile conserva_analizarBloque)

lemma conserva_bucleAnalisis: "conserva (bucleAnalisis n)"
proof (induction n)
  case 0
  show ?case by (simp add: conserva_def)
next
  case (Suc n)
  have p: "nombresDistintos (g\<lparr>pilaSemantica := []\<rparr>) = nombresDistintos g" for g
    by (simp add: nombresDistintos_def)
  show ?case
    unfolding conserva_def
    by (auto dest!: luego_Normal split: if_splits)
       (blast dest: conservaD [OF conserva_sentencia_n] conservaD [OF Suc] p [THEN iffD2])+
qed

text \<open>
  Claim C9. The names of the symbol table are pairwise distinct in every state of a run:
  this holds for the initial globals; \<open>esDeclaracionVariable\<close> keeps it (it looks for the
  name before it appends); \<open>esOperacionAritmetica\<close> leaves the list of names as it is
  (it only overwrites a value); hence every attempt at a statement (\<open>sentencia\<close>, with
  all the blocks nested in it) keeps it, whether it succeeds or fails, and it holds for
  the globals at the end of every run of the program.
\<close>

theorem nombres_distintos:
  "nombresDistintos inicial \<and>
   (\<forall>tokens i g ok i' g'. nombresDistintos g \<longrightarrow>
      esDeclaracionVariable tokens i g = Normal (ok, i', g') \<longrightarrow> nombresDistintos g') \<and>
   (\<forall>n tokens i g ok i' raiz g'. nombresDistintos g \<longrightarrow>
      esOperacionAritmetica n tokens i g = Normal (ok, i', raiz, g') \<longrightarrow>
      map nombre (tablaSimbolos g') = map nombre (tablaSimbolos g) \<and> nombresDistintos g') \<and>
   (\<forall>n tokens i g ok i' g'. nombresDistintos g \<longrightarrow>
      sentencia n tokens i g = Normal (ok, i', g') \<longrightarrow> nombresDistintos g') \<and>
   (\<forall>n codigo ok i g. programa n codigo = Normal (ok, i, g) \<longrightarrow> nombresDistintos g)"
proof (intro conjI allI impI)
  show "nombresDistintos inicial" by (simp add: nombresDistintos_def inicial_def)
next
  fix tokens i g ok i' g'
  assume "nombresDistintos g" "esDeclaracionVariable tokens i g = Normal (ok, i', g')"
  then show "nombresDistintos g'" by (rule esDeclaracionVariable_distintos [rotated])
next
  fix n tokens i g ok i' raiz g'
  assume "nombresDistintos g" "esOperacionAritmetica n tokens i g = Normal (ok, i', raiz, g')"
  then show "nombresDistintos g'" by (rule esOperacionAritmetica_distintos [rotated])
next
  fix n tokens i g ok i' raiz g'
  assume "esOperacionAritmetica n tokens i g = Normal (ok, i', raiz, g')"
  then show "map nombre (tablaSimbolos g') = map nombre (tablaSimbolos g)"
    by (rule esOperacionAritmetica_nombres)
next
  fix n tokens i g ok i' g'
  assume "nombresDistintos g" "sentencia n tokens i g = Normal (ok, i', g')"
  then show "nombresDistintos g'" by (rule conservaD [OF conserva_sentencia_n, rotated])
next
  fix n codigo ok i g
  assume "programa n codigo = Normal (ok, i, g)"
  then have "bucleAnalisis n (Lexico codigo) 0 inicial = Normal (ok, i, g)"
    by (simp add: programa_def analisisSintactico_def)
  then show "nombresDistintos g"
    by (rule conservaD [OF conserva_bucleAnalisis]) (simp add: nombresDistintos_def inicial_def)
qed

theorem nombres_distintos_witness:
  "programa 20 ''int x=5; int y=3; int z=0; z = x + y * x;'' = Normal (True, 23, xyz ''40'') \<and>
   nombresDistintos (xyz ''40'')"
proof -
  have h: "programa 20 ''int x=5; int y=3; int z=0; z = x + y * x;'' = Normal (True, 23, xyz ''40'')"
    by code_simp
  from nombres_distintos have
    "\<forall>n codigo ok i g. programa n codigo = Normal (ok, i, g) \<longrightarrow> nombresDistintos g"
    by (elim conjE)
  with h show ?thesis by blast
qed

end
